theory Spec2Isabelle
  imports Main
begin

section \<open>The per-origin HTTP connection of httpx (httpx/dispatch/connection.py)\<close>

text \<open>
  \<^verbatim>\<open>HTTPConnection\<close> owns the connection to one origin. It opens the transport on the
  first \<^verbatim>\<open>send\<close>, binds one of two protocol handles according to the protocol the
  backend negotiated, and from then on forwards \<^verbatim>\<open>send\<close>, \<^verbatim>\<open>close\<close> and the health
  accessors to the bound handle.

  The class is embedded as a record of its attributes; each method takes the state
  before the call and returns its result together with the state after it. A raised
  exception is the \<open>Inl\<close> branch of the result. The coroutines are run one at a time:
  an \<^verbatim>\<open>await\<close> is an ordinary call.
\<close>

subsection \<open>Values handed through unchanged\<close>

text \<open>
  The classes and type aliases below come from modules that are imported by
  connection.py (config, interfaces, models, concurrency, http11, http2). The
  connection only stores their values and hands them on, so they are plain data here.
\<close>

datatype protocol = HTTP_11 | HTTP_2

datatype verify_types = VerifyBool bool | VerifyPath string

datatype cert_types = CertFile string | CertKeyPair string string

datatype ssl_config = SSLConfig (ssl_cert: "cert_types option") (ssl_verify: verify_types)

datatype timeout_config = TimeoutConfigObj nat

datatype timeout_types = TimeoutSeconds nat | TimeoutOfConfig timeout_config

datatype ssl_context = SSLContext nat

datatype stream_reader = Reader nat

datatype stream_writer = Writer nat

datatype concurrency_backend = AsyncioBackend | OtherBackend nat

datatype async_request = AsyncRequest string

datatype async_response = AsyncResponse string

text \<open>Of an \<^verbatim>\<open>Origin\<close> the connection reads \<^verbatim>\<open>host\<close>, \<^verbatim>\<open>port\<close> and \<^verbatim>\<open>is_ssl\<close>.\<close>

record origin =
  host :: string
  port :: nat
  is_ssl :: bool

datatype origin_arg = OriginStr string | OriginObj origin

text \<open>
  An instance of \<^verbatim>\<open>HTTPConnection\<close> is known to others by its reference. The closure
  \<^verbatim>\<open>functools.partial(self.release_func, self)\<close> holds the callback and that reference.
\<close>

type_synonym conn_ref = nat

datatype release_callback = ReleaseCallback nat

datatype release_closure = Partial release_callback conn_ref

datatype http11_connection =
  HTTP11Connection stream_reader stream_writer concurrency_backend "release_closure option"

datatype http2_connection =
  HTTP2Connection stream_reader stream_writer concurrency_backend "release_closure option"

subsection \<open>Errors\<close>

text \<open>
  \<open>AssertionError\<close> is what a failed \<^verbatim>\<open>assert\<close> of connection.py raises.
  \<open>ExternalError\<close> is an exception raised inside a collaborator (TLS context
  loading, the backend, a protocol connection); the connection never catches one.
\<close>

datatype error = ExternalError string | AssertionError

subsection \<open>The instance\<close>

record http_connection =
  self_ref :: conn_ref
  origin :: origin
  ssl :: ssl_config
  timeout :: timeout_config
  backend :: concurrency_backend
  release_func :: "release_callback option"
  h11_connection :: "http11_connection option"
  h2_connection :: "http2_connection option"

subsection \<open>Collaborators\<close>

text \<open>
  What the collaborators answer is a parameter of the model. Their own state (sockets,
  protocol state machines) is a value of type \<open>'w\<close> that every call may change.
  \<open>Origin\<close> and \<open>TimeoutConfig\<close> are the two constructors of that name.
\<close>

record 'w env =
  Origin :: "string \<Rightarrow> origin"
  TimeoutConfig :: "timeout_types option \<Rightarrow> timeout_config"
  load_ssl_context :: "'w \<Rightarrow> ssl_config \<Rightarrow> (error + ssl_context) \<times> 'w"
  backend_connect :: "'w \<Rightarrow> concurrency_backend \<Rightarrow> string \<Rightarrow> nat \<Rightarrow> ssl_context option
    \<Rightarrow> timeout_config \<Rightarrow> (error + stream_reader \<times> stream_writer \<times> protocol) \<times> 'w"
  h11_send :: "'w \<Rightarrow> http11_connection \<Rightarrow> async_request \<Rightarrow> timeout_types option
    \<Rightarrow> (error + async_response) \<times> 'w"
  h2_send :: "'w \<Rightarrow> http2_connection \<Rightarrow> async_request \<Rightarrow> timeout_types option
    \<Rightarrow> (error + async_response) \<times> 'w"
  h11_close :: "'w \<Rightarrow> http11_connection \<Rightarrow> (error + unit) \<times> 'w"
  h2_close :: "'w \<Rightarrow> http2_connection \<Rightarrow> (error + unit) \<times> 'w"
  h11_is_closed :: "'w \<Rightarrow> http11_connection \<Rightarrow> bool"
  h2_is_closed :: "'w \<Rightarrow> http2_connection \<Rightarrow> bool"
  h11_is_connection_dropped :: "'w \<Rightarrow> http11_connection \<Rightarrow> bool"
  h2_is_connection_dropped :: "'w \<Rightarrow> http2_connection \<Rightarrow> bool"

text \<open>
  Modelled from the spec: \<^verbatim>\<open>SSLConfig.with_overrides\<close> of httpx/config.py, which is
  not among the sources. The spec describes an immutable base configuration with an
  operation that produces a derived configuration overriding verification and
  certificate per call, each override defaulting to the stored value.
\<close>

definition with_overrides :: "ssl_config \<Rightarrow> verify_types option \<Rightarrow> cert_types option \<Rightarrow> ssl_config" where
  "with_overrides base verify cert =
     SSLConfig (case cert of None \<Rightarrow> ssl_cert base | Some c \<Rightarrow> Some c)
               (case verify of None \<Rightarrow> ssl_verify base | Some v \<Rightarrow> v)"

subsection \<open>The log of calls\<close>

text \<open>
  Every call that leaves the connection is written to a log together with what it
  returned, oldest first. \<open>Call_connect\<close> marks an entry into
  \<^verbatim>\<open>HTTPConnection.connect\<close> itself. The log is not data of the program: it is what
  the statements below use to say which calls an operation makes.
\<close>

datatype event =
    Call_connect "verify_types option" "cert_types option" "timeout_types option"
  | Load_ssl_context ssl_config "error + ssl_context"
  | Backend_connect concurrency_backend string nat "ssl_context option" timeout_config
      "error + stream_reader \<times> stream_writer \<times> protocol"
  | H11_send http11_connection async_request "timeout_types option" "error + async_response"
  | H2_send http2_connection async_request "timeout_types option" "error + async_response"
  | H11_close http11_connection "error + unit"
  | H2_close http2_connection "error + unit"

record 'w state =
  conn :: http_connection
  world :: 'w
  calls :: "event list"

definition call_load_ssl_context ::
  "'w env \<Rightarrow> ssl_config \<Rightarrow> 'w state \<Rightarrow> (error + ssl_context) \<times> 'w state" where
  "call_load_ssl_context env cfg s =
     (case load_ssl_context env (world s) cfg of
        (r, w') \<Rightarrow> (r, s\<lparr>world := w', calls := calls s @ [Load_ssl_context cfg r]\<rparr>))"

definition call_backend_connect ::
  "'w env \<Rightarrow> concurrency_backend \<Rightarrow> string \<Rightarrow> nat \<Rightarrow> ssl_context option \<Rightarrow> timeout_config
    \<Rightarrow> 'w state \<Rightarrow> (error + stream_reader \<times> stream_writer \<times> protocol) \<times> 'w state" where
  "call_backend_connect env b h p ctx t s =
     (case backend_connect env (world s) b h p ctx t of
        (r, w') \<Rightarrow> (r, s\<lparr>world := w', calls := calls s @ [Backend_connect b h p ctx t r]\<rparr>))"

definition call_h11_send ::
  "'w env \<Rightarrow> http11_connection \<Rightarrow> async_request \<Rightarrow> timeout_types option
    \<Rightarrow> 'w state \<Rightarrow> (error + async_response) \<times> 'w state" where
  "call_h11_send env h request t s =
     (case h11_send env (world s) h request t of
        (r, w') \<Rightarrow> (r, s\<lparr>world := w', calls := calls s @ [H11_send h request t r]\<rparr>))"

definition call_h2_send ::
  "'w env \<Rightarrow> http2_connection \<Rightarrow> async_request \<Rightarrow> timeout_types option
    \<Rightarrow> 'w state \<Rightarrow> (error + async_response) \<times> 'w state" where
  "call_h2_send env h request t s =
     (case h2_send env (world s) h request t of
        (r, w') \<Rightarrow> (r, s\<lparr>world := w', calls := calls s @ [H2_send h request t r]\<rparr>))"

definition call_h11_close :: "'w env \<Rightarrow> http11_connection \<Rightarrow> 'w state \<Rightarrow> (error + unit) \<times> 'w state" where
  "call_h11_close env h s =
     (case h11_close env (world s) h of
        (r, w') \<Rightarrow> (r, s\<lparr>world := w', calls := calls s @ [H11_close h r]\<rparr>))"

definition call_h2_close :: "'w env \<Rightarrow> http2_connection \<Rightarrow> 'w state \<Rightarrow> (error + unit) \<times> 'w state" where
  "call_h2_close env h s =
     (case h2_close env (world s) h of
        (r, w') \<Rightarrow> (r, s\<lparr>world := w', calls := calls s @ [H2_close h r]\<rparr>))"

subsection \<open>The methods\<close>

text \<open>
  \<^verbatim>\<open>__init__\<close>: stores the configuration and leaves both handles \<^verbatim>\<open>None\<close>. The
  reference of the new object is the first argument.
\<close>

definition init ::
  "'w env \<Rightarrow> conn_ref \<Rightarrow> origin_arg \<Rightarrow> verify_types \<Rightarrow> cert_types option \<Rightarrow> timeout_types option
    \<Rightarrow> concurrency_backend option \<Rightarrow> release_callback option \<Rightarrow> http_connection" where
  "init env self origin_a verify cert timeout_a backend_a release_func_a =
     \<lparr> self_ref = self,
       origin = (case origin_a of OriginStr u \<Rightarrow> Origin env u | OriginObj og \<Rightarrow> og),
       ssl = SSLConfig cert verify,
       timeout = TimeoutConfig env timeout_a,
       backend = (case backend_a of None \<Rightarrow> AsyncioBackend | Some b \<Rightarrow> b),
       release_func = release_func_a,
       h11_connection = None,
       h2_connection = None \<rparr>"

text \<open>
  \<^verbatim>\<open>connect\<close>: the effective TLS and timeout configuration are local values; the TLS
  context is loaded only for an origin with \<^verbatim>\<open>is_ssl\<close>; the handle is assigned after
  the backend has answered.
\<close>

definition connect ::
  "'w env \<Rightarrow> verify_types option \<Rightarrow> cert_types option \<Rightarrow> timeout_types option
    \<Rightarrow> 'w state \<Rightarrow> (error + unit) \<times> 'w state" where
  "connect env verify cert timeout_a s0 =
     (let s = s0\<lparr>calls := calls s0 @ [Call_connect verify cert timeout_a]\<rparr>;
          self = conn s;
          ssl_eff = with_overrides (ssl self) verify cert;
          timeout_eff = (case timeout_a of None \<Rightarrow> timeout self
                         | Some t \<Rightarrow> TimeoutConfig env (Some t))
      in case (if is_ssl (origin self)
               then (case call_load_ssl_context env ssl_eff s of
                       (Inl e, s1) \<Rightarrow> (Inl e, s1)
                     | (Inr ctx, s1) \<Rightarrow> (Inr (Some ctx), s1))
               else (Inr None, s)) of
           (Inl e, s1) \<Rightarrow> (Inl e, s1)
         | (Inr ssl_context, s1) \<Rightarrow>
             (let on_release = (case release_func self of None \<Rightarrow> None
                                | Some f \<Rightarrow> Some (Partial f (self_ref self)))
              in case call_backend_connect env (backend self) (host (origin self))
                        (port (origin self)) ssl_context timeout_eff s1 of
                   (Inl e, s2) \<Rightarrow> (Inl e, s2)
                 | (Inr (reader, writer, proto), s2) \<Rightarrow>
                     if proto = HTTP_2
                     then (Inr (), s2\<lparr>conn := (conn s2)\<lparr>h2_connection :=
                             Some (HTTP2Connection reader writer (backend self) on_release)\<rparr>\<rparr>)
                     else (Inr (), s2\<lparr>conn := (conn s2)\<lparr>h11_connection :=
                             Some (HTTP11Connection reader writer (backend self) on_release)\<rparr>\<rparr>)))"

text \<open>
  \<^verbatim>\<open>send\<close>: connects when both handles are \<^verbatim>\<open>None\<close>, then forwards the request and
  its own \<^verbatim>\<open>timeout\<close> argument to the HTTP/2 handle if there is one, to the HTTP/1.1
  handle otherwise.
\<close>

definition send ::
  "'w env \<Rightarrow> async_request \<Rightarrow> verify_types option \<Rightarrow> cert_types option \<Rightarrow> timeout_types option
    \<Rightarrow> 'w state \<Rightarrow> (error + async_response) \<times> 'w state" where
  "send env request verify cert timeout_a s =
     (case (if h11_connection (conn s) = None \<and> h2_connection (conn s) = None
            then connect env verify cert timeout_a s
            else (Inr (), s)) of
        (Inl e, s1) \<Rightarrow> (Inl e, s1)
      | (Inr u, s1) \<Rightarrow>
          (case h2_connection (conn s1) of
             Some h2 \<Rightarrow> call_h2_send env h2 request timeout_a s1
           | None \<Rightarrow>
               (case h11_connection (conn s1) of
                  None \<Rightarrow> (Inl AssertionError, s1)
                | Some h11 \<Rightarrow> call_h11_send env h11 request timeout_a s1)))"

definition close :: "'w env \<Rightarrow> 'w state \<Rightarrow> (error + unit) \<times> 'w state" where
  "close env s =
     (case h2_connection (conn s) of
        Some h2 \<Rightarrow> call_h2_close env h2 s
      | None \<Rightarrow>
          (case h11_connection (conn s) of
             Some h11 \<Rightarrow> call_h11_close env h11 s
           | None \<Rightarrow> (Inr (), s)))"

definition is_http2 :: "'w state \<Rightarrow> bool" where
  "is_http2 s = (h2_connection (conn s) \<noteq> None)"

definition is_closed :: "'w env \<Rightarrow> 'w state \<Rightarrow> error + bool" where
  "is_closed env s =
     (case h2_connection (conn s) of
        Some h2 \<Rightarrow> Inr (h2_is_closed env (world s) h2)
      | None \<Rightarrow>
          (case h11_connection (conn s) of
             None \<Rightarrow> Inl AssertionError
           | Some h11 \<Rightarrow> Inr (h11_is_closed env (world s) h11)))"

definition is_connection_dropped :: "'w env \<Rightarrow> 'w state \<Rightarrow> error + bool" where
  "is_connection_dropped env s =
     (case h2_connection (conn s) of
        Some h2 \<Rightarrow> Inr (h2_is_connection_dropped env (world s) h2)
      | None \<Rightarrow>
          (case h11_connection (conn s) of
             None \<Rightarrow> Inl AssertionError
           | Some h11 \<Rightarrow> Inr (h11_is_connection_dropped env (world s) h11)))"

subsection \<open>Sequences of calls on one instance\<close>

text \<open>
  A caller may invoke the methods in any order. An exception ends the call that raised
  it; the instance stays as that call left it and the next call starts from there.
\<close>

datatype operation =
    Op_connect "verify_types option" "cert_types option" "timeout_types option"
  | Op_send async_request "verify_types option" "cert_types option" "timeout_types option"
  | Op_close
  | Op_is_http2
  | Op_is_closed
  | Op_is_connection_dropped

datatype outcome =
    Raised error
  | Returned_none
  | Returned_response async_response
  | Returned_bool bool

fun step :: "'w env \<Rightarrow> operation \<Rightarrow> 'w state \<Rightarrow> outcome \<times> 'w state" where
  "step env (Op_connect verify cert timeout_a) s =
     (case connect env verify cert timeout_a s of
        (Inl e, s1) \<Rightarrow> (Raised e, s1)
      | (Inr u, s1) \<Rightarrow> (Returned_none, s1))"
| "step env (Op_send request verify cert timeout_a) s =
     (case send env request verify cert timeout_a s of
        (Inl e, s1) \<Rightarrow> (Raised e, s1)
      | (Inr r, s1) \<Rightarrow> (Returned_response r, s1))"
| "step env Op_close s =
     (case close env s of
        (Inl e, s1) \<Rightarrow> (Raised e, s1)
      | (Inr u, s1) \<Rightarrow> (Returned_none, s1))"
| "step env Op_is_http2 s = (Returned_bool (is_http2 s), s)"
| "step env Op_is_closed s =
     (case is_closed env s of Inl e \<Rightarrow> (Raised e, s) | Inr b \<Rightarrow> (Returned_bool b, s))"
| "step env Op_is_connection_dropped s =
     (case is_connection_dropped env s of Inl e \<Rightarrow> (Raised e, s) | Inr b \<Rightarrow> (Returned_bool b, s))"

fun run :: "'w env \<Rightarrow> operation list \<Rightarrow> 'w state \<Rightarrow> outcome list \<times> 'w state" where
  "run env [] s = ([], s)"
| "run env (x # xs) s =
     (case step env x s of
        (r, s1) \<Rightarrow> (case run env xs s1 of (rs, s2) \<Rightarrow> (r # rs, s2)))"

fun is_Op_connect :: "operation \<Rightarrow> bool" where
  "is_Op_connect (Op_connect verify cert timeout_a) = True"
| "is_Op_connect x = False"

fun is_Op_send :: "operation \<Rightarrow> bool" where
  "is_Op_send (Op_send request verify cert timeout_a) = True"
| "is_Op_send x = False"

fun is_Returned_response :: "outcome \<Rightarrow> bool" where
  "is_Returned_response (Returned_response r) = True"
| "is_Returned_response x = False"

definition unbound :: "'w state \<Rightarrow> bool" where
  "unbound s = (h11_connection (conn s) = None \<and> h2_connection (conn s) = None)"

text \<open>
  \<open>connect_when_unbound\<close>: along the sequence, \<^verbatim>\<open>connect\<close> is called directly only
  while both handles are \<^verbatim>\<open>None\<close>, which is how \<^verbatim>\<open>send\<close> calls it.
\<close>

fun connect_when_unbound :: "'w env \<Rightarrow> operation list \<Rightarrow> 'w state \<Rightarrow> bool" where
  "connect_when_unbound env [] s = True"
| "connect_when_unbound env (x # xs) s =
     ((if is_Op_connect x then unbound s else True)
      \<and> connect_when_unbound env xs (snd (step env x s)))"

fun is_Call_connect :: "event \<Rightarrow> bool" where
  "is_Call_connect (Call_connect verify cert timeout_a) = True"
| "is_Call_connect e = False"

fun is_h11_call :: "event \<Rightarrow> bool" where
  "is_h11_call (H11_send h request t r) = True"
| "is_h11_call (H11_close h r) = True"
| "is_h11_call e = False"

fun is_h2_call :: "event \<Rightarrow> bool" where
  "is_h2_call (H2_send h request t r) = True"
| "is_h2_call (H2_close h r) = True"
| "is_h2_call e = False"

text \<open>The calls an operation added to the log: those after the first \<open>length (calls s)\<close>.\<close>

definition new_calls :: "'w state \<Rightarrow> 'w state \<Rightarrow> event list" where
  "new_calls s s' = drop (length (calls s)) (calls s')"

text \<open>The \<^verbatim>\<open>timeout\<close> arguments that the protocol handles' \<^verbatim>\<open>send\<close> received.\<close>

fun send_timeouts :: "event list \<Rightarrow> timeout_types option list" where
  "send_timeouts [] = []"
| "send_timeouts (H11_send h request t r # es) = t # send_timeouts es"
| "send_timeouts (H2_send h request t r # es) = t # send_timeouts es"
| "send_timeouts (e # es) = send_timeouts es"

subsection \<open>A scripted backend\<close>

text \<open>
  A stand-in for the collaborators, used to run the methods on concrete inputs. Its
  state is the list of protocols the backend will negotiate on its next connects; with
  the list used up the backend refuses the connection. Loading a TLS context fails for
  the trust store path \<open>''/missing''\<close>.
\<close>

definition stub_env :: "protocol list env" where
  "stub_env =
     \<lparr> Origin = (\<lambda>u. \<lparr>host = u, port = 443, is_ssl = True\<rparr>),
       TimeoutConfig = (\<lambda>t. case t of None \<Rightarrow> TimeoutConfigObj 0
                             | Some (TimeoutSeconds n) \<Rightarrow> TimeoutConfigObj n
                             | Some (TimeoutOfConfig c) \<Rightarrow> c),
       load_ssl_context = (\<lambda>w cfg. if ssl_verify cfg = VerifyPath ''/missing''
                                   then (Inl (ExternalError ''trust store not found''), w)
                                   else (Inr (SSLContext 1), w)),
       backend_connect = (\<lambda>w b h p ctx t. case w of
                              [] \<Rightarrow> (Inl (ExternalError ''connection refused''), [])
                            | pr # ps \<Rightarrow> (Inr (Reader (length ps), Writer (length ps), pr), ps)),
       h11_send = (\<lambda>w h request t. (Inr (AsyncResponse ''over HTTP/1.1''), w)),
       h2_send = (\<lambda>w h request t. (Inr (AsyncResponse ''over HTTP/2''), w)),
       h11_close = (\<lambda>w h. (Inr (), w)),
       h2_close = (\<lambda>w h. (Inr (), w)),
       h11_is_closed = (\<lambda>w h. False),
       h2_is_closed = (\<lambda>w h. False),
       h11_is_connection_dropped = (\<lambda>w h. False),
       h2_is_connection_dropped = (\<lambda>w h. False) \<rparr>"

text \<open>
  A new instance for \<open>https://example.test:443\<close> with \<^verbatim>\<open>verify=True\<close>, a timeout of
  five seconds and a release callback, at reference \<open>7\<close>; and the state in which
  nothing has been called yet.
\<close>

definition example_conn :: http_connection where
  "example_conn =
     init stub_env 7 (OriginObj \<lparr>host = ''example.test'', port = 443, is_ssl = True\<rparr>)
       (VerifyBool True) None (Some (TimeoutSeconds 5)) None (Some (ReleaseCallback 3))"

definition start :: "http_connection \<Rightarrow> 'w \<Rightarrow> 'w state" where
  "start c w = \<lparr>conn = c, world = w, calls = []\<rparr>"

text \<open>The state after one successful \<^verbatim>\<open>send\<close> when the backend negotiates HTTP/2.\<close>

definition h2_state :: "protocol list state" where
  "h2_state =
     snd (send stub_env (AsyncRequest ''GET /'') None None None (start example_conn [HTTP_2]))"

subsection \<open>A journalling backend\<close>

text \<open>
  A second stand-in. The state of its collaborators is the list of the calls they have
  received, oldest first, so that the state after an operation shows which of them
  were really called. Its backend always negotiates HTTP/2, and closing the HTTP/2
  handle raises.
\<close>

definition journal_env :: "string list env" where
  "journal_env =
     \<lparr> Origin = (\<lambda>u. \<lparr>host = u, port = 443, is_ssl = True\<rparr>),
       TimeoutConfig = (\<lambda>t. case t of None \<Rightarrow> TimeoutConfigObj 0
                             | Some (TimeoutSeconds n) \<Rightarrow> TimeoutConfigObj n
                             | Some (TimeoutOfConfig c) \<Rightarrow> c),
       load_ssl_context = (\<lambda>w cfg. (Inr (SSLContext 1), w @ [''load_ssl_context''])),
       backend_connect = (\<lambda>w b h p ctx t.
                            (Inr (Reader 0, Writer 0, HTTP_2), w @ [''backend.connect''])),
       h11_send = (\<lambda>w h request t. (Inr (AsyncResponse ''over HTTP/1.1''), w @ [''h11.send''])),
       h2_send = (\<lambda>w h request t. (Inr (AsyncResponse ''over HTTP/2''), w @ [''h2.send''])),
       h11_close = (\<lambda>w h. (Inr (), w @ [''h11.close''])),
       h2_close = (\<lambda>w h. (Inl (ExternalError ''stream already reset''), w @ [''h2.close''])),
       h11_is_closed = (\<lambda>w h. False),
       h2_is_closed = (\<lambda>w h. False),
       h11_is_connection_dropped = (\<lambda>w h. False),
       h2_is_connection_dropped = (\<lambda>w h. False) \<rparr>"

text \<open>The handle \<^verbatim>\<open>connect\<close> builds for the example instance in both stand-ins.\<close>

definition example_h2 :: http2_connection where
  "example_h2 =
     HTTP2Connection (Reader 0) (Writer 0) AsyncioBackend (Some (Partial (ReleaseCallback 3) 7))"

subsection \<open>Reading the log\<close>


text \<open>The TLS configurations a context was loaded from, and the timeouts given to the backend.\<close>

fun ssl_configs_loaded :: "event list \<Rightarrow> ssl_config list" where
  "ssl_configs_loaded [] = []"
| "ssl_configs_loaded (Load_ssl_context cfg r # es) = cfg # ssl_configs_loaded es"
| "ssl_configs_loaded (e # es) = ssl_configs_loaded es"

fun connect_timeouts :: "event list \<Rightarrow> timeout_config list" where
  "connect_timeouts [] = []"
| "connect_timeouts (Backend_connect b h p ctx t r # es) = t # connect_timeouts es"
| "connect_timeouts (e # es) = connect_timeouts es"


text \<open>The state after one successful \<^verbatim>\<open>send\<close> against the journalling backend.\<close>

definition journal_h2_state :: "string list state" where
  "journal_h2_state =
     snd (send journal_env (AsyncRequest ''GET /'') None None None (start example_conn []))"


section \<open>Properties\<close>

subsection \<open>Auxiliary facts\<close>

lemmas call_defs = call_load_ssl_context_def call_backend_connect_def call_h11_send_def
  call_h2_send_def call_h11_close_def call_h2_close_def

lemmas stub_defs = stub_env_def example_conn_def init_def start_def with_overrides_def

lemma new_calls_append [simp]: "calls s' = calls s @ es \<Longrightarrow> new_calls s s' = es"
  by (simp add: new_calls_def)

lemma new_calls_same [simp]: "new_calls s s = []"
  by (simp add: new_calls_def)


lemma connect_fail: "connect env v c t s = (Inl e, s') \<Longrightarrow> conn s' = conn s"
  by (auto simp: connect_def Let_def call_defs
      split: prod.splits sum.splits if_splits option.splits)

lemma connect_ok:
  "connect env v c t s = (Inr u, s') \<Longrightarrow>
     (\<exists>h. conn s' = (conn s)\<lparr>h2_connection := Some h\<rparr>)
   \<or> (\<exists>h. conn s' = (conn s)\<lparr>h11_connection := Some h\<rparr>)"
  by (auto simp: connect_def Let_def call_defs
      split: prod.splits sum.splits if_splits option.splits)

lemma connect_calls:
  "connect env v c t s = (r, s') \<Longrightarrow>
     \<exists>es. calls s' = calls s @ Call_connect v c t # es
        \<and> filter is_Call_connect es = [] \<and> filter is_h11_call es = []
        \<and> filter is_h2_call es = [] \<and> send_timeouts es = []"
  by (auto simp: connect_def Let_def call_defs
      split: prod.splits sum.splits if_splits option.splits)

lemma close_conn: "close env s = (r, s') \<Longrightarrow> conn s' = conn s"
  by (auto simp: close_def call_defs split: prod.splits option.splits)

lemma send_bound:
  "\<not> unbound s \<Longrightarrow> send env rq v c t s = (r, s') \<Longrightarrow>
     conn s' = conn s \<and>
     (case h2_connection (conn s) of
        Some h \<Rightarrow> calls s' = calls s @ [H2_send h rq t r]
      | None \<Rightarrow> (case h11_connection (conn s) of
                   Some h \<Rightarrow> calls s' = calls s @ [H11_send h rq t r]
                 | None \<Rightarrow> False))"
  by (auto simp: send_def unbound_def call_defs split: prod.splits option.splits)

lemma h2_state_eq:
  "h2_state =
     \<lparr>conn = example_conn\<lparr>h2_connection :=
        Some (HTTP2Connection (Reader 0) (Writer 0) AsyncioBackend
                (Some (Partial (ReleaseCallback 3) 7)))\<rparr>,
      world = [],
      calls = [Call_connect None None None,
               Load_ssl_context (SSLConfig None (VerifyBool True)) (Inr (SSLContext 1)),
               Backend_connect AsyncioBackend ''example.test'' 443 (Some (SSLContext 1))
                 (TimeoutConfigObj 5) (Inr (Reader 0, Writer 0, HTTP_2)),
               H2_send (HTTP2Connection (Reader 0) (Writer 0) AsyncioBackend
                          (Some (Partial (ReleaseCallback 3) 7)))
                 (AsyncRequest ''GET /'') None (Inr (AsyncResponse ''over HTTP/2''))]\<rparr>"
  by (simp add: h2_state_def send_def connect_def call_defs stub_defs Let_def)

lemma send_unbound:
  "unbound s \<Longrightarrow> send env rq v c t s = (res, s') \<Longrightarrow>
     \<exists>r1 s1. connect env v c t s = (r1, s1) \<and>
       (case r1 of
          Inl e \<Rightarrow> res = Inl e \<and> s' = s1
        | Inr u \<Rightarrow>
            (case h2_connection (conn s1) of
               Some h2 \<Rightarrow> conn s' = conn s1 \<and> calls s' = calls s1 @ [H2_send h2 rq t res]
             | None \<Rightarrow>
                 (case h11_connection (conn s1) of
                    Some h11 \<Rightarrow> conn s' = conn s1 \<and> calls s' = calls s1 @ [H11_send h11 rq t res]
                  | None \<Rightarrow> res = Inl AssertionError \<and> s' = s1)))"
  by (auto simp: send_def unbound_def call_defs split: prod.splits sum.splits option.splits)


lemma send_ok_bound: "send env rq v c t s = (Inr x, s') \<Longrightarrow> \<not> unbound s'"
proof (cases "unbound s")
  case False
  assume a: "send env rq v c t s = (Inr x, s')"
  from send_bound [OF False a] False show ?thesis by (simp add: unbound_def)
next
  case True
  assume a: "send env rq v c t s = (Inr x, s')"
  from send_unbound [OF True a] obtain r1 s1 where
    cn: "connect env v c t s = (r1, s1)" and
    rest: "(case r1 of
          Inl e \<Rightarrow> Inr x = Inl e \<and> s' = s1
        | Inr u \<Rightarrow>
            (case h2_connection (conn s1) of
               Some h2 \<Rightarrow> conn s' = conn s1 \<and> calls s' = calls s1 @ [H2_send h2 rq t (Inr x)]
             | None \<Rightarrow>
                 (case h11_connection (conn s1) of
                    Some h11 \<Rightarrow> conn s' = conn s1 \<and> calls s' = calls s1 @ [H11_send h11 rq t (Inr x)]
                  | None \<Rightarrow> Inr x = Inl AssertionError \<and> s' = s1)))"
    by blast
  show ?thesis
  proof (cases r1)
    case (Inl e)
    with rest show ?thesis by simp
  next
    case (Inr u)
    with rest show ?thesis
      by (auto simp: unbound_def split: option.splits)
  qed
qed

lemma send_unbound_calls:
  "unbound s \<Longrightarrow> send env rq v c t s = (res, s') \<Longrightarrow>
     \<exists>r1 s1 tl. connect env v c t s = (r1, s1) \<and> calls s' = calls s1 @ tl \<and> conn s' = conn s1 \<and>
       (case r1 of
          Inl e \<Rightarrow> res = Inl e \<and> tl = []
        | Inr u \<Rightarrow>
            (case h2_connection (conn s1) of
               Some h2 \<Rightarrow> tl = [H2_send h2 rq t res]
             | None \<Rightarrow>
                 (case h11_connection (conn s1) of
                    Some h11 \<Rightarrow> tl = [H11_send h11 rq t res]
                  | None \<Rightarrow> res = Inl AssertionError \<and> tl = [])))"
  by (auto simp: send_def unbound_def call_defs split: prod.splits sum.splits option.splits)



lemma run_snd_Cons: "snd (run env (x # xs) s) = snd (run env xs (snd (step env x s)))"
  by (simp split: prod.splits)

lemma run_fst_Cons:
  "fst (run env (x # xs) s) = fst (step env x s) # fst (run env xs (snd (step env x s)))"
  by (simp split: prod.splits)

lemma run_snd_append: "snd (run env (xs @ ys) s) = snd (run env ys (snd (run env xs s)))"
  by (induction xs arbitrary: s) (simp_all add: run_snd_Cons del: run.simps(2))

lemma step_send:
  "step env (Op_send rq v c t) s =
     (case fst (send env rq v c t s) of Inl e \<Rightarrow> Raised e | Inr r \<Rightarrow> Returned_response r,
      snd (send env rq v c t s))"
  by (simp split: prod.splits sum.splits)

lemma step_connect:
  "step env (Op_connect v c t) s =
     (case fst (connect env v c t s) of Inl e \<Rightarrow> Raised e | Inr r \<Rightarrow> Returned_none,
      snd (connect env v c t s))"
  by (simp split: prod.splits sum.splits)

lemma step_close:
  "step env Op_close s =
     (case fst (close env s) of Inl e \<Rightarrow> Raised e | Inr r \<Rightarrow> Returned_none,
      snd (close env s))"
  by (simp split: prod.splits sum.splits)

lemma step_accessors:
  "snd (step env Op_is_http2 s) = s" "snd (step env Op_is_closed s) = s"
  "snd (step env Op_is_connection_dropped s) = s"
  by (simp_all split: sum.splits)

lemma send_count:
  "length (filter is_Call_connect (calls (snd (send env rq v c t s))))
     = length (filter is_Call_connect (calls s)) + (if unbound s then 1 else 0)"
proof -
  obtain res s' where sd: "send env rq v c t s = (res, s')"
    by (cases "send env rq v c t s")
  show ?thesis
  proof (cases "unbound s")
    case False
    from send_bound [OF False sd] False sd show ?thesis
      by (auto split: option.splits)
  next
    case True
    from send_unbound_calls [OF True sd] obtain r1 s1 tl where
      cn: "connect env v c t s = (r1, s1)" and
      cs': "calls s' = calls s1 @ tl" and
      rest: "(case r1 of
          Inl e \<Rightarrow> res = Inl e \<and> tl = []
        | Inr u \<Rightarrow>
            (case h2_connection (conn s1) of
               Some h2 \<Rightarrow> tl = [H2_send h2 rq t res]
             | None \<Rightarrow>
                 (case h11_connection (conn s1) of
                    Some h11 \<Rightarrow> tl = [H11_send h11 rq t res]
                  | None \<Rightarrow> res = Inl AssertionError \<and> tl = [])))"
      by blast
    from connect_calls [OF cn] obtain es where
      cs1: "calls s1 = calls s @ Call_connect v c t # es" and
      f: "filter is_Call_connect es = []"
      by blast
    have tlf: "filter is_Call_connect tl = []"
      using rest by (auto split: sum.splits option.splits)
    from True sd cs' cs1 f tlf show ?thesis by simp
  qed
qed

lemma quiet_step:
  "\<not> is_Op_send x \<Longrightarrow> \<not> is_Op_connect x \<Longrightarrow> unbound s \<Longrightarrow> snd (step env x s) = s"
  by (cases x) (auto simp: close_def unbound_def split: sum.splits option.splits)

lemma quiet_run:
  "list_all (\<lambda>y. \<not> is_Op_send y \<and> \<not> is_Op_connect y) ops \<Longrightarrow> unbound s
     \<Longrightarrow> snd (run env ops s) = s"
  by (induction ops) (simp_all add: run_snd_Cons quiet_step del: run.simps(2))

lemma send_bound_step:
  "\<not> unbound s \<Longrightarrow>
     \<not> unbound (snd (send env rq v c t s))
   \<and> conn (snd (send env rq v c t s)) = conn s
   \<and> filter is_Call_connect (calls (snd (send env rq v c t s))) = filter is_Call_connect (calls s)"
proof -
  assume b: "\<not> unbound s"
  obtain res s' where sd: "send env rq v c t s = (res, s')"
    by (cases "send env rq v c t s")
  from send_bound [OF b sd] b sd show ?thesis
    by (auto simp: unbound_def split: option.splits)
qed

lemma bound_sends:
  "\<not> unbound s \<Longrightarrow> list_all is_Op_send ops \<Longrightarrow>
     filter is_Call_connect (calls (snd (run env ops s))) = filter is_Call_connect (calls s)"
proof (induction ops arbitrary: s)
  case Nil
  then show ?case by simp
next
  case (Cons x xs)
  from Cons.prems obtain rq v c t where x: "x = Op_send rq v c t"
    by (cases x) simp_all
  from Cons.prems have xs: "list_all is_Op_send xs" by simp
  from send_bound_step [OF Cons.prems(1), of env rq v c t]
  have b: "\<not> unbound (snd (send env rq v c t s))"
    and f: "filter is_Call_connect (calls (snd (send env rq v c t s)))
            = filter is_Call_connect (calls s)" by simp_all
  from Cons.IH [OF b xs] f show ?case
    by (simp add: run_snd_Cons x step_send del: run.simps(2) step.simps)
qed




lemma connect_unbound_atmost1:
  "unbound s \<Longrightarrow> connect env v c t s = (r, s') \<Longrightarrow>
     (h11_connection (conn s') = None \<or> h2_connection (conn s') = None)
   \<and> (r = Inr () \<longrightarrow> \<not> unbound s')"
proof (cases r)
  case (Inl e)
  assume u: "unbound s" and cn: "connect env v c t s = (r, s')"
  from connect_fail [of env v c t s e s'] cn Inl u show ?thesis
    by (simp add: unbound_def)
next
  case (Inr x)
  assume u: "unbound s" and cn: "connect env v c t s = (r, s')"
  from connect_ok [of env v c t s x s'] cn Inr u show ?thesis
    by (auto simp: unbound_def)
qed

lemma step_bound_conn:
  "\<not> unbound s \<Longrightarrow> \<not> is_Op_connect x \<Longrightarrow> conn (snd (step env x s)) = conn s"
proof (cases x)
  case (Op_send rq v c t)
  assume b: "\<not> unbound s"
  from send_bound_step [OF b, of env rq v c t] show ?thesis
    unfolding Op_send step_send by simp
next
  case Op_close
  obtain r s' where cl: "close env s = (r, s')"
    by (cases "close env s")
  from close_conn [OF cl] cl show ?thesis
    unfolding Op_close step_close by simp
qed (simp_all add: step_accessors del: step.simps)

lemma step_unbound_atmost1:
  "unbound s \<Longrightarrow>
     h11_connection (conn (snd (step env x s))) = None
   \<or> h2_connection (conn (snd (step env x s))) = None"
proof (cases x)
  case (Op_connect v c t)
  assume u: "unbound s"
  obtain r s' where cn: "connect env v c t s = (r, s')"
    by (cases "connect env v c t s")
  from connect_unbound_atmost1 [OF u cn] cn show ?thesis
    unfolding Op_connect step_connect by simp
next
  case (Op_send rq v c t)
  assume u: "unbound s"
  obtain res s' where sd: "send env rq v c t s = (res, s')"
    by (cases "send env rq v c t s")
  from send_unbound_calls [OF u sd] obtain r1 s1 where
    cn: "connect env v c t s = (r1, s1)" and cc: "conn s' = conn s1"
    by blast
  from connect_unbound_atmost1 [OF u cn] cc sd show ?thesis
    unfolding Op_send step_send by simp
next
  case Op_close
  assume u: "unbound s"
  obtain r s' where cl: "close env s = (r, s')"
    by (cases "close env s")
  from close_conn [OF cl] cl u show ?thesis
    unfolding Op_close step_close by (simp add: unbound_def)
qed (simp_all add: step_accessors unbound_def del: step.simps)

lemma run_guarded:
  "connect_when_unbound env ops s \<Longrightarrow>
   h11_connection (conn s) = None \<or> h2_connection (conn s) = None \<Longrightarrow>
     (h11_connection (conn (snd (run env ops s))) = None
      \<or> h2_connection (conn (snd (run env ops s))) = None)
   \<and> (\<not> unbound s \<longrightarrow> conn (snd (run env ops s)) = conn s)"
proof (induction ops arbitrary: s)
  case Nil
  then show ?case by simp
next
  case (Cons x xs)
  from Cons.prems(1) have g: "connect_when_unbound env xs (snd (step env x s))"
    and gx: "is_Op_connect x \<longrightarrow> unbound s" by simp_all
  show ?case
  proof (cases "unbound s")
    case True
    from step_unbound_atmost1 [OF True, of env x]
    have a: "h11_connection (conn (snd (step env x s))) = None
           \<or> h2_connection (conn (snd (step env x s))) = None" .
    from Cons.IH [OF g a] True show ?thesis
      by (simp add: run_snd_Cons del: run.simps(2) step.simps)
  next
    case False
    with gx have nx: "\<not> is_Op_connect x" by blast
    from step_bound_conn [OF False nx, of env]
    have c: "conn (snd (step env x s)) = conn s" .
    with Cons.prems(2) have a: "h11_connection (conn (snd (step env x s))) = None
           \<or> h2_connection (conn (snd (step env x s))) = None" by simp
    from c False have b: "\<not> unbound (snd (step env x s))" by (simp add: unbound_def)
    from Cons.IH [OF g a] b c Cons.prems(2) show ?thesis
      by (simp add: run_snd_Cons del: run.simps(2) step.simps)
  qed
qed

lemma connect_when_unbound_append:
  "connect_when_unbound env (xs @ ys) s =
     (connect_when_unbound env xs s \<and> connect_when_unbound env ys (snd (run env xs s)))"
  by (induction xs arbitrary: s) (simp_all add: run_snd_Cons del: run.simps(2) step.simps)

lemmas eval_defs = send_def connect_def close_def is_closed_def is_connection_dropped_def
  is_http2_def call_defs stub_defs Let_def unbound_def new_calls_def

lemma close_env:
  "close env s = (r, s') \<Longrightarrow>
     conn s' = conn s \<and>
     (case h2_connection (conn s) of
        Some h2 \<Rightarrow> r = fst (h2_close env (world s) h2)
                 \<and> world s' = snd (h2_close env (world s) h2)
                 \<and> calls s' = calls s @ [H2_close h2 r]
      | None \<Rightarrow> (case h11_connection (conn s) of
                   Some h11 \<Rightarrow> r = fst (h11_close env (world s) h11)
                             \<and> world s' = snd (h11_close env (world s) h11)
                             \<and> calls s' = calls s @ [H11_close h11 r]
                 | None \<Rightarrow> r = Inr () \<and> s' = s))"
  by (auto simp: close_def call_defs split: prod.splits option.splits)

lemma send_bound_env:
  "\<not> unbound s \<Longrightarrow> send env rq v c t s = (res, s') \<Longrightarrow>
     conn s' = conn s \<and>
     (case h2_connection (conn s) of
        Some h \<Rightarrow> res = fst (h2_send env (world s) h rq t)
                \<and> world s' = snd (h2_send env (world s) h rq t)
                \<and> calls s' = calls s @ [H2_send h rq t res]
      | None \<Rightarrow> (case h11_connection (conn s) of
                   Some h \<Rightarrow> res = fst (h11_send env (world s) h rq t)
                           \<and> world s' = snd (h11_send env (world s) h rq t)
                           \<and> calls s' = calls s @ [H11_send h rq t res]
                 | None \<Rightarrow> False))"
  by (auto simp: send_def unbound_def call_defs split: prod.splits option.splits)

lemma send_unbound_env:
  "unbound s \<Longrightarrow> connect env v c t s = (r1, s1) \<Longrightarrow> send env rq v c t s = (res, s') \<Longrightarrow>
     (case r1 of
        Inl e \<Rightarrow> res = Inl e \<and> s' = s1
      | Inr u \<Rightarrow>
          conn s' = conn s1 \<and>
          (case h2_connection (conn s1) of
             Some h \<Rightarrow> res = fst (h2_send env (world s1) h rq t)
                     \<and> world s' = snd (h2_send env (world s1) h rq t)
                     \<and> calls s' = calls s1 @ [H2_send h rq t res]
           | None \<Rightarrow>
               (case h11_connection (conn s1) of
                  Some h \<Rightarrow> res = fst (h11_send env (world s1) h rq t)
                          \<and> world s' = snd (h11_send env (world s1) h rq t)
                          \<and> calls s' = calls s1 @ [H11_send h rq t res]
                | None \<Rightarrow> res = Inl AssertionError \<and> s' = s1)))"
  by (auto simp: send_def unbound_def call_defs split: prod.splits sum.splits option.splits)


lemma connect_env_backend:
  "(is_ssl (origin (conn s))
      \<and> load_ssl_context env (world s) (with_overrides (ssl (conn s)) v c) = (Inr cx, w1)
      \<and> ctx = Some cx)
   \<or> (\<not> is_ssl (origin (conn s)) \<and> w1 = world s \<and> ctx = None) \<Longrightarrow>
   backend_connect env w1 (backend (conn s)) (host (origin (conn s))) (port (origin (conn s)))
     ctx (case t of None \<Rightarrow> timeout (conn s) | Some x \<Rightarrow> TimeoutConfig env (Some x)) = (rb, w2) \<Longrightarrow>
   connect env v c t s = (r, s') \<Longrightarrow>
     world s' = w2
   \<and> (case rb of
        Inl e \<Rightarrow> r = Inl e \<and> conn s' = conn s
      | Inr (rd, wr, proto) \<Rightarrow>
          r = Inr () \<and>
          conn s' =
           (if proto = HTTP_2
            then (conn s)\<lparr>h2_connection := Some (HTTP2Connection rd wr (backend (conn s))
                    (case release_func (conn s) of None \<Rightarrow> None
                     | Some f \<Rightarrow> Some (Partial f (self_ref (conn s)))))\<rparr>
            else (conn s)\<lparr>h11_connection := Some (HTTP11Connection rd wr (backend (conn s))
                    (case release_func (conn s) of None \<Rightarrow> None
                     | Some f \<Rightarrow> Some (Partial f (self_ref (conn s)))))\<rparr>))
   \<and> ssl_configs_loaded (new_calls s s')
       = (if is_ssl (origin (conn s)) then [with_overrides (ssl (conn s)) v c] else [])
   \<and> connect_timeouts (new_calls s s')
       = [case t of None \<Rightarrow> timeout (conn s) | Some x \<Rightarrow> TimeoutConfig env (Some x)]"
  by (auto simp: connect_def Let_def call_defs new_calls_def
      split: prod.splits sum.splits if_splits option.splits)

lemma journal_h2_state_eq:
  "journal_h2_state =
     \<lparr>conn = example_conn\<lparr>h2_connection := Some example_h2\<rparr>,
      world = [''load_ssl_context'', ''backend.connect'', ''h2.send''],
      calls = [Call_connect None None None,
               Load_ssl_context (SSLConfig None (VerifyBool True)) (Inr (SSLContext 1)),
               Backend_connect AsyncioBackend ''example.test'' 443 (Some (SSLContext 1))
                 (TimeoutConfigObj 5) (Inr (Reader 0, Writer 0, HTTP_2)),
               H2_send example_h2 (AsyncRequest ''GET /'') None
                 (Inr (AsyncResponse ''over HTTP/2''))]\<rparr>"
  by (simp add: journal_h2_state_def journal_env_def example_h2_def eval_defs)

lemma bound_sends_conn:
  "\<not> unbound s \<Longrightarrow> list_all is_Op_send ops \<Longrightarrow> conn (snd (run env ops s)) = conn s"
proof (induction ops arbitrary: s)
  case Nil
  then show ?case by simp
next
  case (Cons x xs)
  from Cons.prems obtain rq v c t where x: "x = Op_send rq v c t"
    by (cases x) simp_all
  from Cons.prems have xs: "list_all is_Op_send xs" by simp
  from send_bound_step [OF Cons.prems(1), of env rq v c t]
  have b: "\<not> unbound (snd (send env rq v c t s))"
    and f: "conn (snd (send env rq v c t s)) = conn s" by simp_all
  from Cons.IH [OF b xs] f show ?case
    by (simp add: run_snd_Cons x step_send del: run.simps(2) step.simps)
qed



subsection \<open>The accessors\<close>

text \<open>
  C7. \<^verbatim>\<open>is_closed\<close> and \<^verbatim>\<open>is_connection_dropped\<close> answer with what the bound handle
  answers, the HTTP/2 handle first. They raise \<open>AssertionError\<close> exactly when neither
  handle is bound; that is the only exception they raise, and it differs from every
  exception of a collaborator.
\<close>

theorem accessors_assert:
  "(is_closed env s = Inl AssertionError \<longleftrightarrow> unbound s)
   \<and> (is_connection_dropped env s = Inl AssertionError \<longleftrightarrow> unbound s)
   \<and> (is_closed env s = Inl e \<or> is_connection_dropped env s = Inl e
        \<longrightarrow> e = AssertionError \<and> e \<noteq> ExternalError msg)
   \<and> (h2_connection (conn s) = Some h2
        \<longrightarrow> is_closed env s = Inr (h2_is_closed env (world s) h2)
          \<and> is_connection_dropped env s = Inr (h2_is_connection_dropped env (world s) h2))
   \<and> (h2_connection (conn s) = None \<and> h11_connection (conn s) = Some h11
        \<longrightarrow> is_closed env s = Inr (h11_is_closed env (world s) h11)
          \<and> is_connection_dropped env s = Inr (h11_is_connection_dropped env (world s) h11))"
  by (auto simp: is_closed_def is_connection_dropped_def unbound_def split: option.splits)

theorem accessors_assert_witness:
  "unbound (start example_conn [HTTP_2])
   \<and> is_closed stub_env (start example_conn [HTTP_2]) = Inl AssertionError
   \<and> is_connection_dropped stub_env (start example_conn [HTTP_2]) = Inl AssertionError
   \<and> h2_connection (conn h2_state)
       = Some (HTTP2Connection (Reader 0) (Writer 0) AsyncioBackend (Some (Partial (ReleaseCallback 3) 7)))
   \<and> is_closed stub_env h2_state = Inr False
   \<and> is_connection_dropped stub_env h2_state = Inr False"
  using accessors_assert [where env = stub_env and s = "start example_conn [HTTP_2]"]
    accessors_assert [where env = stub_env and s = h2_state
      and ?h2.0 = "HTTP2Connection (Reader 0) (Writer 0) AsyncioBackend (Some (Partial (ReleaseCallback 3) 7))"]
  by (simp add: h2_state_eq unbound_def stub_defs)

subsection \<open>Sending after closing\<close>




subsection \<open>A failing connect\<close>



subsection \<open>The release closure\<close>

text \<open>
  C9. A \<^verbatim>\<open>connect\<close> that returns has built the handle of the negotiated protocol from
  the reader and writer the backend returned, the instance's backend, and as
  \<^verbatim>\<open>on_release\<close> either \<open>None\<close>, when the instance has no release callback, or the
  callback applied to the reference of this very instance.
\<close>

theorem connect_on_release:
  "connect env verify cert timeout_a s = (Inr u, s') \<Longrightarrow>
     \<exists>b h p ctx tc rd wr proto.
        last (calls s') = Backend_connect b h p ctx tc (Inr (rd, wr, proto))
      \<and> (proto = HTTP_2 \<longrightarrow>
            h2_connection (conn s') = Some (HTTP2Connection rd wr (backend (conn s))
              (case release_func (conn s) of None \<Rightarrow> None
               | Some f \<Rightarrow> Some (Partial f (self_ref (conn s))))))
      \<and> (proto \<noteq> HTTP_2 \<longrightarrow>
            h11_connection (conn s') = Some (HTTP11Connection rd wr (backend (conn s))
              (case release_func (conn s) of None \<Rightarrow> None
               | Some f \<Rightarrow> Some (Partial f (self_ref (conn s))))))"
  by (auto simp: connect_def Let_def call_defs
      split: prod.splits sum.splits if_splits option.splits)

theorem connect_on_release_witness:
  "connect stub_env None None None (start example_conn [HTTP_11])
     = (Inr (), snd (connect stub_env None None None (start example_conn [HTTP_11])))
   \<and> release_func example_conn = Some (ReleaseCallback 3) \<and> self_ref example_conn = 7
   \<and> last (calls (snd (connect stub_env None None None (start example_conn [HTTP_11]))))
       = Backend_connect AsyncioBackend ''example.test'' 443 (Some (SSLContext 1)) (TimeoutConfigObj 5)
           (Inr (Reader 0, Writer 0, HTTP_11))
   \<and> h11_connection (conn (snd (connect stub_env None None None (start example_conn [HTTP_11]))))
       = Some (HTTP11Connection (Reader 0) (Writer 0) AsyncioBackend (Some (Partial (ReleaseCallback 3) 7)))"
  using connect_on_release [of stub_env None None None "start example_conn [HTTP_11]" "()"
      "snd (connect stub_env None None None (start example_conn [HTTP_11]))"]
  by (simp add: connect_def call_defs stub_defs Let_def)

subsection \<open>The timeout handed to the protocol handle\<close>




subsection \<open>Binding once\<close>

text \<open>
  The claim C1 asks that at most one handle is ever bound, also across a second direct
  call to \<^verbatim>\<open>connect\<close>. \<^verbatim>\<open>connect\<close> does not look at the handles before it assigns
  one: when the backend negotiates HTTP/1.1 on the first call and HTTP/2 on the second,
  both calls return and both handles are bound.
\<close>

theorem rebind_counterexample:
  "fst (run stub_env [Op_connect None None None, Op_connect None None None]
          (start example_conn [HTTP_11, HTTP_2])) = [Returned_none, Returned_none]
   \<and> h11_connection (conn (snd (run stub_env [Op_connect None None None, Op_connect None None None]
          (start example_conn [HTTP_11, HTTP_2]))))
       = Some (HTTP11Connection (Reader 1) (Writer 1) AsyncioBackend
                 (Some (Partial (ReleaseCallback 3) 7)))
   \<and> h2_connection (conn (snd (run stub_env [Op_connect None None None, Op_connect None None None]
          (start example_conn [HTTP_11, HTTP_2]))))
       = Some (HTTP2Connection (Reader 0) (Writer 0) AsyncioBackend
                 (Some (Partial (ReleaseCallback 3) 7)))"
  by (simp add: eval_defs)

text \<open>
  C1, as the code has it. Along every sequence of calls in which \<^verbatim>\<open>connect\<close> is
  called directly only while both handles are \<open>None\<close>, started with at most one handle
  bound: at most one handle is bound at every point; once a handle is bound, both
  handle attributes stay as they are for the rest of the sequence; and a \<^verbatim>\<open>connect\<close>
  that returns, called at a point without handles, leaves exactly one handle bound.
\<close>

theorem single_bind:
  assumes g: "connect_when_unbound env (ops1 @ ops2) s"
    and a: "h11_connection (conn s) = None \<or> h2_connection (conn s) = None"
  shows "(h11_connection (conn (snd (run env ops1 s))) = None
          \<or> h2_connection (conn (snd (run env ops1 s))) = None)
       \<and> (\<not> unbound (snd (run env ops1 s))
            \<longrightarrow> h11_connection (conn (snd (run env (ops1 @ ops2) s)))
                  = h11_connection (conn (snd (run env ops1 s)))
              \<and> h2_connection (conn (snd (run env (ops1 @ ops2) s)))
                  = h2_connection (conn (snd (run env ops1 s))))
       \<and> (unbound (snd (run env ops1 s))
            \<and> fst (connect env verify cert timeout_a (snd (run env ops1 s))) = Inr ()
            \<longrightarrow> (h11_connection (conn (snd (connect env verify cert timeout_a
                       (snd (run env ops1 s))))) = None)
                \<noteq> (h2_connection (conn (snd (connect env verify cert timeout_a
                       (snd (run env ops1 s))))) = None))"
proof -
  from g have g1: "connect_when_unbound env ops1 s"
    and g2: "connect_when_unbound env ops2 (snd (run env ops1 s))"
    by (simp_all add: connect_when_unbound_append)
  from run_guarded [OF g1 a]
  have a1: "h11_connection (conn (snd (run env ops1 s))) = None
          \<or> h2_connection (conn (snd (run env ops1 s))) = None" by simp
  from run_guarded [OF g2 a1]
  have p: "\<not> unbound (snd (run env ops1 s))
     \<longrightarrow> conn (snd (run env (ops1 @ ops2) s)) = conn (snd (run env ops1 s))"
    by (simp add: run_snd_append)
  have c: "(h11_connection (conn (snd (connect env verify cert timeout_a
                       (snd (run env ops1 s))))) = None)
                \<noteq> (h2_connection (conn (snd (connect env verify cert timeout_a
                       (snd (run env ops1 s))))) = None)"
    if u: "unbound (snd (run env ops1 s))"
      and ok: "fst (connect env verify cert timeout_a (snd (run env ops1 s))) = Inr ()"
  proof -
    from ok have cn: "connect env verify cert timeout_a (snd (run env ops1 s))
        = (Inr (), snd (connect env verify cert timeout_a (snd (run env ops1 s))))"
      by (metis prod.collapse)
    from connect_unbound_atmost1 [OF u cn] show ?thesis
      by (auto simp: unbound_def)
  qed
  from a1 p c show ?thesis by auto
qed

theorem single_bind_witness:
  "connect_when_unbound stub_env
     ([Op_close, Op_connect None None None]
      @ [Op_send (AsyncRequest ''GET /a'') None None None, Op_close,
         Op_send (AsyncRequest ''GET /b'') None None None])
     (start example_conn [HTTP_2, HTTP_11])
   \<and> \<not> unbound (snd (run stub_env [Op_close, Op_connect None None None]
                       (start example_conn [HTTP_2, HTTP_11])))
   \<and> h11_connection (conn (snd (run stub_env
        ([Op_close, Op_connect None None None]
         @ [Op_send (AsyncRequest ''GET /a'') None None None, Op_close,
            Op_send (AsyncRequest ''GET /b'') None None None])
        (start example_conn [HTTP_2, HTTP_11])))) = None
   \<and> h2_connection (conn (snd (run stub_env
        ([Op_close, Op_connect None None None]
         @ [Op_send (AsyncRequest ''GET /a'') None None None, Op_close,
            Op_send (AsyncRequest ''GET /b'') None None None])
        (start example_conn [HTTP_2, HTTP_11]))))
       = Some (HTTP2Connection (Reader 1) (Writer 1) AsyncioBackend
                 (Some (Partial (ReleaseCallback 3) 7)))"
  using single_bind [where env = stub_env
      and ?ops1.0 = "[Op_close, Op_connect None None None]"
      and ?ops2.0 = "[Op_send (AsyncRequest ''GET /a'') None None None, Op_close,
         Op_send (AsyncRequest ''GET /b'') None None None]"
      and s = "start example_conn [HTTP_2, HTTP_11]"]
  by (simp add: eval_defs)

subsection \<open>Closing\<close>

text \<open>
  C6. \<^verbatim>\<open>close\<close> closes the HTTP/2 handle when there is one: what it returns or raises
  is what that handle's \<^verbatim>\<open>close\<close> returned or raised, the collaborators are left as
  that call left them, and it is the only call made. Otherwise it does the same with
  the HTTP/1.1 handle when there is one. With neither handle it returns normally and
  the state, collaborators included, is as before. The last conjunct is the case of an
  instance that has just been constructed. No attribute of the instance changes.
\<close>

theorem close_delegates:
  "close env s = (r, s') \<Longrightarrow>
     (h2_connection (conn s) = Some h2
        \<longrightarrow> r = fst (h2_close env (world s) h2)
          \<and> world s' = snd (h2_close env (world s) h2)
          \<and> conn s' = conn s
          \<and> new_calls s s' = [H2_close h2 r])
   \<and> (h2_connection (conn s) = None \<and> h11_connection (conn s) = Some h11
        \<longrightarrow> r = fst (h11_close env (world s) h11)
          \<and> world s' = snd (h11_close env (world s) h11)
          \<and> conn s' = conn s
          \<and> new_calls s s' = [H11_close h11 r])
   \<and> (unbound s \<longrightarrow> r = Inr () \<and> s' = s)
   \<and> close env (start (init env self origin_a verify cert timeout_a backend_a release_func_a) w)
        = (Inr (), start (init env self origin_a verify cert timeout_a backend_a release_func_a) w)"
proof -
  assume a: "close env s = (r, s')"
  have fresh:
    "close env (start (init env self origin_a verify cert timeout_a backend_a release_func_a) w)
       = (Inr (), start (init env self origin_a verify cert timeout_a backend_a release_func_a) w)"
    by (simp add: close_def start_def init_def)
  from close_env [OF a] fresh show ?thesis
    by (auto simp: unbound_def)
qed

theorem close_delegates_witness:
  "h2_connection (conn journal_h2_state) = Some example_h2
   \<and> world journal_h2_state = [''load_ssl_context'', ''backend.connect'', ''h2.send'']
   \<and> close journal_env journal_h2_state
       = (Inl (ExternalError ''stream already reset''), snd (close journal_env journal_h2_state))
   \<and> world (snd (close journal_env journal_h2_state))
       = [''load_ssl_context'', ''backend.connect'', ''h2.send'', ''h2.close'']
   \<and> new_calls journal_h2_state (snd (close journal_env journal_h2_state))
       = [H2_close example_h2 (Inl (ExternalError ''stream already reset''))]"
  using close_delegates [where env = journal_env and s = journal_h2_state
      and r = "Inl (ExternalError ''stream already reset'')"
      and s' = "snd (close journal_env journal_h2_state)" and ?h2.0 = example_h2]
  by (simp add: journal_h2_state_eq journal_env_def close_def call_defs)

subsection \<open>Routing by the negotiated protocol\<close>

text \<open>
  C3. Take a \<^verbatim>\<open>send\<close> on an instance without handles, for which loading the TLS
  context (for an origin with TLS) succeeds and the backend's connect then answers
  with the protocol \<open>proto\<close>, leaving the collaborators in state \<open>w2\<close>. If \<open>proto\<close> is
  HTTP/2, what \<^verbatim>\<open>send\<close> returns or raises is what the \<^verbatim>\<open>send\<close> of the HTTP/2 handle,
  built from what the backend returned, gives for the request and the \<^verbatim>\<open>timeout\<close>
  argument in state \<open>w2\<close>; the collaborators are left as that call left them; the
  HTTP/1.1 handle stays \<open>None\<close> and is not called. If \<open>proto\<close> is HTTP/1.1, the same
  holds with the two handles exchanged. On an instance that is already bound,
  \<^verbatim>\<open>send\<close> is the \<^verbatim>\<open>send\<close> of the HTTP/2 handle if there is one, of the HTTP/1.1 handle
  otherwise, and nothing else is called.
\<close>

theorem send_routes_by_protocol:
  assumes sd: "send env request verify cert timeout_a s = (res, s')"
  shows
    "(unbound s
      \<and> ((is_ssl (origin (conn s))
           \<and> load_ssl_context env (world s) (with_overrides (ssl (conn s)) verify cert) = (Inr cx, w1)
           \<and> ctx = Some cx)
         \<or> (\<not> is_ssl (origin (conn s)) \<and> w1 = world s \<and> ctx = None))
      \<and> backend_connect env w1 (backend (conn s)) (host (origin (conn s))) (port (origin (conn s)))
           ctx (case timeout_a of None \<Rightarrow> timeout (conn s) | Some t \<Rightarrow> TimeoutConfig env (Some t))
          = (Inr (rd, wr, proto), w2)
      \<longrightarrow> (proto = HTTP_2 \<longrightarrow>
             res = fst (h2_send env w2 (HTTP2Connection rd wr (backend (conn s))
                     (case release_func (conn s) of None \<Rightarrow> None
                      | Some f \<Rightarrow> Some (Partial f (self_ref (conn s))))) request timeout_a)
           \<and> world s' = snd (h2_send env w2 (HTTP2Connection rd wr (backend (conn s))
                     (case release_func (conn s) of None \<Rightarrow> None
                      | Some f \<Rightarrow> Some (Partial f (self_ref (conn s))))) request timeout_a)
           \<and> h2_connection (conn s') = Some (HTTP2Connection rd wr (backend (conn s))
                     (case release_func (conn s) of None \<Rightarrow> None
                      | Some f \<Rightarrow> Some (Partial f (self_ref (conn s)))))
           \<and> h11_connection (conn s') = None
           \<and> filter is_h2_call (new_calls s s') = [H2_send (HTTP2Connection rd wr (backend (conn s))
                     (case release_func (conn s) of None \<Rightarrow> None
                      | Some f \<Rightarrow> Some (Partial f (self_ref (conn s))))) request timeout_a res]
           \<and> filter is_h11_call (new_calls s s') = [])
         \<and> (proto = HTTP_11 \<longrightarrow>
             res = fst (h11_send env w2 (HTTP11Connection rd wr (backend (conn s))
                     (case release_func (conn s) of None \<Rightarrow> None
                      | Some f \<Rightarrow> Some (Partial f (self_ref (conn s))))) request timeout_a)
           \<and> world s' = snd (h11_send env w2 (HTTP11Connection rd wr (backend (conn s))
                     (case release_func (conn s) of None \<Rightarrow> None
                      | Some f \<Rightarrow> Some (Partial f (self_ref (conn s))))) request timeout_a)
           \<and> h11_connection (conn s') = Some (HTTP11Connection rd wr (backend (conn s))
                     (case release_func (conn s) of None \<Rightarrow> None
                      | Some f \<Rightarrow> Some (Partial f (self_ref (conn s)))))
           \<and> h2_connection (conn s') = None
           \<and> filter is_h11_call (new_calls s s') = [H11_send (HTTP11Connection rd wr (backend (conn s))
                     (case release_func (conn s) of None \<Rightarrow> None
                      | Some f \<Rightarrow> Some (Partial f (self_ref (conn s))))) request timeout_a res]
           \<and> filter is_h2_call (new_calls s s') = []))
     \<and> (h2_connection (conn s) = Some h2
          \<longrightarrow> res = fst (h2_send env (world s) h2 request timeout_a)
            \<and> world s' = snd (h2_send env (world s) h2 request timeout_a)
            \<and> conn s' = conn s
            \<and> new_calls s s' = [H2_send h2 request timeout_a res])
     \<and> (h2_connection (conn s) = None \<and> h11_connection (conn s) = Some h11
          \<longrightarrow> res = fst (h11_send env (world s) h11 request timeout_a)
            \<and> world s' = snd (h11_send env (world s) h11 request timeout_a)
            \<and> conn s' = conn s
            \<and> new_calls s s' = [H11_send h11 request timeout_a res])"
    (is "(?U \<longrightarrow> ?N2 \<and> ?N11) \<and> ?B2 \<and> ?B11")
proof -
  have b2: ?B2
  proof
    assume h: "h2_connection (conn s) = Some h2"
    then have nu: "\<not> unbound s" by (simp add: unbound_def)
    from send_bound_env [OF nu sd] h
    show "res = fst (h2_send env (world s) h2 request timeout_a)
            \<and> world s' = snd (h2_send env (world s) h2 request timeout_a)
            \<and> conn s' = conn s
            \<and> new_calls s s' = [H2_send h2 request timeout_a res]"
      by simp
  qed
  have b11: ?B11
  proof
    assume h: "h2_connection (conn s) = None \<and> h11_connection (conn s) = Some h11"
    then have nu: "\<not> unbound s" by (simp add: unbound_def)
    from send_bound_env [OF nu sd] h
    show "res = fst (h11_send env (world s) h11 request timeout_a)
            \<and> world s' = snd (h11_send env (world s) h11 request timeout_a)
            \<and> conn s' = conn s
            \<and> new_calls s s' = [H11_send h11 request timeout_a res]"
      by simp
  qed
  have n: "?N2 \<and> ?N11" if hyp: ?U
  proof -
    from hyp have u: "unbound s" by simp
    from hyp have tls: "(is_ssl (origin (conn s))
           \<and> load_ssl_context env (world s) (with_overrides (ssl (conn s)) verify cert) = (Inr cx, w1)
           \<and> ctx = Some cx)
         \<or> (\<not> is_ssl (origin (conn s)) \<and> w1 = world s \<and> ctx = None)" by simp
    from hyp have neg: "backend_connect env w1 (backend (conn s)) (host (origin (conn s)))
          (port (origin (conn s))) ctx
          (case timeout_a of None \<Rightarrow> timeout (conn s) | Some t \<Rightarrow> TimeoutConfig env (Some t))
          = (Inr (rd, wr, proto), w2)" by simp
    obtain r1 s1 where cn: "connect env verify cert timeout_a s = (r1, s1)"
      by (cases "connect env verify cert timeout_a s")
    from connect_env_backend [OF tls neg cn]
    have w: "world s1 = w2" and r1: "r1 = Inr ()" and
      cs: "conn s1 =
           (if proto = HTTP_2
            then (conn s)\<lparr>h2_connection := Some (HTTP2Connection rd wr (backend (conn s))
                    (case release_func (conn s) of None \<Rightarrow> None
                     | Some f \<Rightarrow> Some (Partial f (self_ref (conn s)))))\<rparr>
            else (conn s)\<lparr>h11_connection := Some (HTTP11Connection rd wr (backend (conn s))
                    (case release_func (conn s) of None \<Rightarrow> None
                     | Some f \<Rightarrow> Some (Partial f (self_ref (conn s)))))\<rparr>)"
      by simp_all
    from connect_calls [OF cn] obtain es where
      cs1: "calls s1 = calls s @ Call_connect verify cert timeout_a # es" and
      f11: "filter is_h11_call es = []" and f2: "filter is_h2_call es = []"
      by blast
    have un: "h11_connection (conn s) = None" "h2_connection (conn s) = None"
      using u by (simp_all add: unbound_def)
    note su = send_unbound_env [OF u cn sd]
    show ?thesis
    proof (cases proto)
      case HTTP_2
      with cs un have h: "h2_connection (conn s1) = Some (HTTP2Connection rd wr (backend (conn s))
                 (case release_func (conn s) of None \<Rightarrow> None
                  | Some f \<Rightarrow> Some (Partial f (self_ref (conn s)))))"
        and h': "h11_connection (conn s1) = None" by simp_all
      from su r1 h h' w cs1 f11 f2 HTTP_2 show ?thesis by simp
    next
      case HTTP_11
      with cs un have h: "h11_connection (conn s1) = Some (HTTP11Connection rd wr (backend (conn s))
                 (case release_func (conn s) of None \<Rightarrow> None
                  | Some f \<Rightarrow> Some (Partial f (self_ref (conn s)))))"
        and h': "h2_connection (conn s1) = None" by simp_all
      from su r1 h h' w cs1 f11 f2 HTTP_11 show ?thesis by simp
    qed
  qed
  from n b2 b11 show ?thesis by blast
qed

theorem send_routes_by_protocol_witness:
  "unbound (start example_conn [])
   \<and> load_ssl_context journal_env [] (with_overrides (ssl example_conn) None None)
       = (Inr (SSLContext 1), [''load_ssl_context''])
   \<and> backend_connect journal_env [''load_ssl_context''] AsyncioBackend ''example.test'' 443
        (Some (SSLContext 1)) (TimeoutConfigObj 5)
       = (Inr (Reader 0, Writer 0, HTTP_2), [''load_ssl_context'', ''backend.connect''])
   \<and> send journal_env (AsyncRequest ''GET /'') None None None (start example_conn [])
       = (Inr (AsyncResponse ''over HTTP/2''), journal_h2_state)
   \<and> fst (h2_send journal_env [''load_ssl_context'', ''backend.connect''] example_h2
             (AsyncRequest ''GET /'') None) = Inr (AsyncResponse ''over HTTP/2'')
   \<and> world journal_h2_state = [''load_ssl_context'', ''backend.connect'', ''h2.send'']
   \<and> h2_connection (conn journal_h2_state) = Some example_h2
   \<and> h11_connection (conn journal_h2_state) = None
   \<and> filter is_h11_call (new_calls (start example_conn []) journal_h2_state) = []"
  using send_routes_by_protocol [where env = journal_env and s = "start example_conn []"
      and request = "AsyncRequest ''GET /''" and verify = None and cert = None
      and timeout_a = None and res = "Inr (AsyncResponse ''over HTTP/2'')"
      and s' = journal_h2_state and cx = "SSLContext 1" and ctx = "Some (SSLContext 1)"
      and ?w1.0 = "[''load_ssl_context'']" and ?w2.0 = "[''load_ssl_context'', ''backend.connect'']"
      and rd = "Reader 0" and wr = "Writer 0" and proto = HTTP_2]
  by (simp add: journal_h2_state_eq journal_env_def example_h2_def eval_defs)

subsection \<open>Connecting once\<close>

text \<open>
  C2. On an instance without handles \<^verbatim>\<open>send\<close> runs \<^verbatim>\<open>connect\<close> with its own
  overrides: if that \<^verbatim>\<open>connect\<close> raises, \<^verbatim>\<open>send\<close> raises the same and stops in the
  state \<^verbatim>\<open>connect\<close> left; if it returns, \<^verbatim>\<open>send\<close> continues from that state with one
  call, the \<^verbatim>\<open>send\<close> of the handle now bound. On an instance with a handle \<^verbatim>\<open>send\<close>
  makes that one call from the state it was called in, and \<^verbatim>\<open>connect\<close> is not run:
  the log gains no entry of \<^verbatim>\<open>connect\<close>. Hence, starting from an instance without
  handles and with nothing called yet, in a sequence of \<^verbatim>\<open>send\<close> calls that all
  return a response the \<^verbatim>\<open>connect\<close> of the first \<^verbatim>\<open>send\<close> returned, the handles at
  the end are the ones it bound, and \<^verbatim>\<open>connect\<close> was entered exactly once, during the
  first \<^verbatim>\<open>send\<close>. A sequence without \<^verbatim>\<open>send\<close> and \<^verbatim>\<open>connect\<close> on an instance without
  handles leaves the whole state, collaborators included, as it was. The instance
  \<^verbatim>\<open>__init__\<close> returns has no handles and has called nothing.
\<close>

theorem send_connects_when_unbound:
  "(unbound s \<and> connect env verify cert timeout_a s = (Inl e, s1)
      \<longrightarrow> send env request verify cert timeout_a s = (Inl e, s1))
   \<and> (unbound s \<and> connect env verify cert timeout_a s = (Inr u, s2)
      \<longrightarrow> conn (snd (send env request verify cert timeout_a s)) = conn s2
        \<and> butlast (calls (snd (send env request verify cert timeout_a s))) = calls s2
        \<and> fst (send env request verify cert timeout_a s)
            = (case h2_connection (conn s2) of
                 Some h \<Rightarrow> fst (h2_send env (world s2) h request timeout_a)
               | None \<Rightarrow> (case h11_connection (conn s2) of
                            Some h \<Rightarrow> fst (h11_send env (world s2) h request timeout_a)
                          | None \<Rightarrow> Inl AssertionError))
        \<and> world (snd (send env request verify cert timeout_a s))
            = (case h2_connection (conn s2) of
                 Some h \<Rightarrow> snd (h2_send env (world s2) h request timeout_a)
               | None \<Rightarrow> (case h11_connection (conn s2) of
                            Some h \<Rightarrow> snd (h11_send env (world s2) h request timeout_a)
                          | None \<Rightarrow> world s2)))
   \<and> (\<not> unbound s
      \<longrightarrow> conn (snd (send env request verify cert timeout_a s)) = conn s
        \<and> butlast (calls (snd (send env request verify cert timeout_a s))) = calls s
        \<and> fst (send env request verify cert timeout_a s)
            = (case h2_connection (conn s) of
                 Some h \<Rightarrow> fst (h2_send env (world s) h request timeout_a)
               | None \<Rightarrow> (case h11_connection (conn s) of
                            Some h \<Rightarrow> fst (h11_send env (world s) h request timeout_a)
                          | None \<Rightarrow> Inl AssertionError))
        \<and> world (snd (send env request verify cert timeout_a s))
            = (case h2_connection (conn s) of
                 Some h \<Rightarrow> snd (h2_send env (world s) h request timeout_a)
               | None \<Rightarrow> (case h11_connection (conn s) of
                            Some h \<Rightarrow> snd (h11_send env (world s) h request timeout_a)
                          | None \<Rightarrow> world s)))
   \<and> length (filter is_Call_connect (calls (snd (send env request verify cert timeout_a s))))
       = length (filter is_Call_connect (calls s)) + (if unbound s then 1 else 0)
   \<and> (unbound s0 \<and> calls s0 = [] \<and> list_all is_Op_send xs
        \<and> list_all is_Returned_response (fst (run env (Op_send rq v c t # xs) s0))
      \<longrightarrow> fst (connect env v c t s0) = Inr ()
        \<and> conn (snd (run env (Op_send rq v c t # xs) s0)) = conn (snd (connect env v c t s0))
        \<and> \<not> unbound (snd (run env (Op_send rq v c t # xs) s0))
        \<and> length (filter is_Call_connect (calls (snd (step env (Op_send rq v c t) s0)))) = 1
        \<and> length (filter is_Call_connect (calls (snd (run env (Op_send rq v c t # xs) s0)))) = 1)
   \<and> (unbound s0 \<and> list_all (\<lambda>y. \<not> is_Op_send y \<and> \<not> is_Op_connect y) ops
      \<longrightarrow> snd (run env ops s0) = s0)
   \<and> unbound (start (init env self origin_a verify0 cert0 timeout0 backend0 release0) w)
   \<and> calls (start (init env self origin_a verify0 cert0 timeout0 backend0 release0) w) = []
   \<and> world (start (init env self origin_a verify0 cert0 timeout0 backend0 release0) w) = w"
  (is "?A1 \<and> ?A2 \<and> ?A3 \<and> ?CNT \<and> ?B \<and> ?C \<and> ?D")
proof -
  obtain res s' where sd: "send env request verify cert timeout_a s = (res, s')"
    by (cases "send env request verify cert timeout_a s")
  have a1: ?A1
  proof
    assume h: "unbound s \<and> connect env verify cert timeout_a s = (Inl e, s1)"
    then have u: "unbound s" and cn: "connect env verify cert timeout_a s = (Inl e, s1)"
      by simp_all
    from send_unbound_env [OF u cn sd] sd
    show "send env request verify cert timeout_a s = (Inl e, s1)" by simp
  qed
  have a2: ?A2
  proof
    assume h: "unbound s \<and> connect env verify cert timeout_a s = (Inr u, s2)"
    then have u: "unbound s" and cn: "connect env verify cert timeout_a s = (Inr u, s2)"
      by simp_all
    from connect_ok [OF cn] have
      "h2_connection (conn s2) \<noteq> None \<or> h11_connection (conn s2) \<noteq> None" by auto
    with send_unbound_env [OF u cn sd] sd
    show "conn (snd (send env request verify cert timeout_a s)) = conn s2
        \<and> butlast (calls (snd (send env request verify cert timeout_a s))) = calls s2
        \<and> fst (send env request verify cert timeout_a s)
            = (case h2_connection (conn s2) of
                 Some h \<Rightarrow> fst (h2_send env (world s2) h request timeout_a)
               | None \<Rightarrow> (case h11_connection (conn s2) of
                            Some h \<Rightarrow> fst (h11_send env (world s2) h request timeout_a)
                          | None \<Rightarrow> Inl AssertionError))
        \<and> world (snd (send env request verify cert timeout_a s))
            = (case h2_connection (conn s2) of
                 Some h \<Rightarrow> snd (h2_send env (world s2) h request timeout_a)
               | None \<Rightarrow> (case h11_connection (conn s2) of
                            Some h \<Rightarrow> snd (h11_send env (world s2) h request timeout_a)
                          | None \<Rightarrow> world s2))"
      by (auto split: option.splits)
  qed
  have a3: ?A3
  proof
    assume nu: "\<not> unbound s"
    from send_bound_env [OF nu sd] sd
    show "conn (snd (send env request verify cert timeout_a s)) = conn s
        \<and> butlast (calls (snd (send env request verify cert timeout_a s))) = calls s
        \<and> fst (send env request verify cert timeout_a s)
            = (case h2_connection (conn s) of
                 Some h \<Rightarrow> fst (h2_send env (world s) h request timeout_a)
               | None \<Rightarrow> (case h11_connection (conn s) of
                            Some h \<Rightarrow> fst (h11_send env (world s) h request timeout_a)
                          | None \<Rightarrow> Inl AssertionError))
        \<and> world (snd (send env request verify cert timeout_a s))
            = (case h2_connection (conn s) of
                 Some h \<Rightarrow> snd (h2_send env (world s) h request timeout_a)
               | None \<Rightarrow> (case h11_connection (conn s) of
                            Some h \<Rightarrow> snd (h11_send env (world s) h request timeout_a)
                          | None \<Rightarrow> world s))"
      by (auto split: option.splits)
  qed
  have b: ?B
  proof
    assume h: "unbound s0 \<and> calls s0 = [] \<and> list_all is_Op_send xs
        \<and> list_all is_Returned_response (fst (run env (Op_send rq v c t # xs) s0))"
    then have u: "unbound s0" and c0: "calls s0 = []" and xs: "list_all is_Op_send xs"
      and ok: "list_all is_Returned_response (fst (run env (Op_send rq v c t # xs) s0))"
      by simp_all
    from ok have "is_Returned_response (fst (step env (Op_send rq v c t) s0))"
      by (simp add: run_fst_Cons del: run.simps(2) step.simps)
    then obtain r where r: "fst (send env rq v c t s0) = Inr r"
      unfolding step_send by (cases "fst (send env rq v c t s0)") simp_all
    then have sd0: "send env rq v c t s0 = (Inr r, snd (send env rq v c t s0))"
      by (metis prod.collapse)
    from send_ok_bound [OF sd0] have bd: "\<not> unbound (snd (send env rq v c t s0))" .
    obtain r1 s1 where cn: "connect env v c t s0 = (r1, s1)"
      by (cases "connect env v c t s0")
    from send_unbound_env [OF u cn sd0] have r1: "r1 = Inr ()"
      and cc: "conn (snd (send env rq v c t s0)) = conn s1"
      by (cases r1; simp)+
    have one: "length (filter is_Call_connect (calls (snd (send env rq v c t s0)))) = 1"
      using send_count [of env rq v c t s0] u c0 by simp
    from bound_sends [OF bd xs, of env] bound_sends_conn [OF bd xs, of env] one cn r1 cc bd
    show "fst (connect env v c t s0) = Inr ()
        \<and> conn (snd (run env (Op_send rq v c t # xs) s0)) = conn (snd (connect env v c t s0))
        \<and> \<not> unbound (snd (run env (Op_send rq v c t # xs) s0))
        \<and> length (filter is_Call_connect (calls (snd (step env (Op_send rq v c t) s0)))) = 1
        \<and> length (filter is_Call_connect (calls (snd (run env (Op_send rq v c t # xs) s0)))) = 1"
      by (simp add: run_snd_Cons step_send unbound_def del: run.simps(2) step.simps)
  qed
  have c: ?C
    using quiet_run [of ops s0 env] by simp
  have d: ?D
    by (simp add: unbound_def start_def init_def)
  from a1 a2 a3 send_count [of env request verify cert timeout_a s] b c d show ?thesis
    by blast
qed

theorem send_connects_when_unbound_witness:
  "unbound (start example_conn []) \<and> calls (start example_conn []) = []
   \<and> fst (run journal_env [Op_send (AsyncRequest ''GET /a'') None None None,
                           Op_send (AsyncRequest ''GET /b'') None None None]
            (start example_conn []))
       = [Returned_response (AsyncResponse ''over HTTP/2''),
          Returned_response (AsyncResponse ''over HTTP/2'')]
   \<and> fst (connect journal_env None None None (start example_conn [])) = Inr ()
   \<and> conn (snd (run journal_env [Op_send (AsyncRequest ''GET /a'') None None None,
                                 Op_send (AsyncRequest ''GET /b'') None None None]
                  (start example_conn [])))
       = conn (snd (connect journal_env None None None (start example_conn [])))
   \<and> world (snd (run journal_env [Op_send (AsyncRequest ''GET /a'') None None None,
                                  Op_send (AsyncRequest ''GET /b'') None None None]
                  (start example_conn [])))
       = [''load_ssl_context'', ''backend.connect'', ''h2.send'', ''h2.send'']
   \<and> length (filter is_Call_connect (calls (snd (run journal_env
        [Op_send (AsyncRequest ''GET /a'') None None None,
         Op_send (AsyncRequest ''GET /b'') None None None]
        (start example_conn []))))) = 1
   \<and> snd (run journal_env [Op_close, Op_is_http2, Op_is_closed, Op_is_connection_dropped]
        (start example_conn [])) = start example_conn []"
  using send_connects_when_unbound [where env = journal_env
      and ?s0.0 = "start example_conn []"
      and rq = "AsyncRequest ''GET /a''" and v = None and c = None and t = None
      and xs = "[Op_send (AsyncRequest ''GET /b'') None None None]"
      and ops = "[Op_close, Op_is_http2, Op_is_closed, Op_is_connection_dropped]"]
  by (simp add: journal_env_def eval_defs)

subsection \<open>Overrides and the stored configuration\<close>




end
